theory Spec2Isabelle
  imports Complex_Main "HOL-Library.AList"
begin

section \<open>Token queue dashboard: the client-side queue synchronisation\<close>

text \<open>
  A shallow embedding of the queue page (the per-doctor \<open>queues\<close> record kept by
  \<open>QueueDisplay\<close> in the page variant), of the older component
  \<open>src/components/QueueDisplay.tsx\<close> (a list of waiting queues plus a map of active
  tokens), of the priority button and of the hook \<open>src/hooks/useEventSource.ts\<close>.

  Conventions of the embedding:
  \<^item> a JavaScript value that may be \<open>null\<close> or \<open>undefined\<close> is an \<open>option\<close>;
  \<^item> \<open>a || b\<close> on strings takes \<open>b\<close> when \<open>a\<close> is missing or empty, on objects when
    \<open>a\<close> is missing;
  \<^item> a React state setter is explicit state passing: each handler takes the component
    state and returns the next one;
  \<^item> a \<open>Date\<close> is its time value in milliseconds; the payload field \<open>timestamp\<close>
    stands for the time value that \<open>new Date(data.timestamp)\<close> denotes;
  \<^item> the result of a REST call is an input of the handler that awaits it.
\<close>

subsection \<open>Data model of the queue page\<close>

datatype TokenPriority = NORMAL | HIGH | EMERGENCY

datatype TokenStatus = CHECKED_IN | IN_PROGRESS | COMPLETED | CANCELLED

record QueueItem =
  tokenId :: string
  tokenValue :: string
  priority :: TokenPriority
  patientId :: string
  patientName :: string
  scheduledDate :: string
  status :: TokenStatus
  score :: int
  rank :: int

text \<open>
  \<open>QueueUpdateData\<close>, the payload of a \<open>queue_update\<close> event and of \<open>GET /queue\<close>.
  Its fields carry the prefix \<open>data_\<close> to keep them apart from the fields of
  \<open>DoctorQueueState\<close>. \<open>data_queue\<close> is \<open>None\<close> when the payload carries no \<open>queue\<close>
  (\<open>Array.isArray\<close> fails on it and \<open>queue?.filter\<close> is undefined). The payload's
  \<open>active\<close>, \<open>previous\<close> and \<open>waiting\<close> are never read by the page and are left out.
\<close>

record QueueUpdateData =
  data_departmentId :: string
  data_doctorId :: string
  data_departmentName :: "string option"
  data_doctorName :: "string option"
  data_queue :: "QueueItem list option"
  data_totalPatients :: int
  data_timestamp :: int

record DoctorQueueState =
  departmentId :: string
  departmentName :: string
  doctorId :: string
  doctorName :: string
  waiting :: "QueueItem list"
  active :: "QueueItem option"
  previous :: "QueueItem option"
  totalPatients :: int
  timestamp :: "int option"

text \<open>The fields of \<open>Doctor\<close> that the page reads.\<close>

record Doctor =
  doc_id :: string
  doc_fullName :: string
  doc_departmentId :: string

text \<open>
  \<open>QueuesState = Record<string, DoctorQueueState>\<close>, keyed by doctor id. An object
  keeps its keys in insertion order and \<open>Object.values(queues)[0]\<close> reads that order, so
  the record is an association list: \<open>{...prev, [k]: v}\<close> is \<open>AList.update k v prev\<close>
  (the key keeps its place when present and is appended otherwise). Doctor ids are
  taken not to be canonical array indices, which an object would list first.
\<close>

type_synonym QueuesState = "(string \<times> DoctorQueueState) list"

datatype 'a ApiResult = Rejected string | Resolved "'a option"

datatype QueueResponse = Single QueueUpdateData | Many "QueueUpdateData list"

record QueuePage =
  selectedDepartmentId :: "string option"
  selectedDoctorId :: "string option"
  queues :: QueuesState
  isUpdating :: bool
  updatingPriorities :: "string \<Rightarrow> bool option"
  connectionError :: "string option"

definition truthy :: "string option \<Rightarrow> bool" where
  "truthy s = (case s of None \<Rightarrow> False | Some v \<Rightarrow> v \<noteq> [])"

definition or_string :: "string option \<Rightarrow> string \<Rightarrow> string" where
  "or_string a b = (case a of None \<Rightarrow> b | Some v \<Rightarrow> if v = [] then b else v)"

definition or_option :: "'a option \<Rightarrow> 'a option \<Rightarrow> 'a option" where
  "or_option a b = (case a of None \<Rightarrow> b | Some v \<Rightarrow> Some v)"

subsection \<open>updateDoctorQueue and handleQueueUpdate\<close>

definition existingState :: "Doctor list \<Rightarrow> string \<Rightarrow> QueuesState \<Rightarrow> DoctorQueueState" where
  "existingState doctors dId prev =
     (case map_of prev dId of
        Some s \<Rightarrow> s
      | None \<Rightarrow>
          \<lparr> departmentId = [], departmentName = [], doctorId = dId,
            doctorName =
              or_string (map_option doc_fullName (find (\<lambda>d. doc_id d = dId) doctors)) ''N/A'',
            waiting = [], active = None, previous = None, totalPatients = 0,
            timestamp = None \<rparr>)"

definition updateDoctorQueue ::
  "Doctor list \<Rightarrow> string \<Rightarrow> (DoctorQueueState \<Rightarrow> DoctorQueueState) \<Rightarrow> QueuesState \<Rightarrow> QueuesState"
where
  "updateDoctorQueue doctors dId updateFn prev =
     AList.update dId (updateFn (existingState doctors dId prev)) prev"

text \<open>The function passed to \<open>updateDoctorQueue\<close> by \<open>handleQueueUpdate\<close>.\<close>

definition queueUpdateFn :: "QueueUpdateData \<Rightarrow> DoctorQueueState \<Rightarrow> DoctorQueueState" where
  "queueUpdateFn data prevState =
     (let activeToken =
            (case data_queue data of
               Some q \<Rightarrow> find (\<lambda>token. status token = IN_PROGRESS) q
             | None \<Rightarrow> None)
      in prevState
           \<lparr> departmentId := data_departmentId data,
             departmentName := or_string (data_departmentName data) (departmentName prevState),
             doctorName := or_string (data_doctorName data) (doctorName prevState),
             waiting :=
               (case data_queue data of
                  Some q \<Rightarrow> filter (\<lambda>token. status token = CHECKED_IN) q
                | None \<Rightarrow> []),
             active := or_option activeToken (active prevState),
             totalPatients := data_totalPatients data,
             timestamp := Some (data_timestamp data) \<rparr>)"

definition handleQueueUpdate :: "Doctor list \<Rightarrow> QueueUpdateData \<Rightarrow> QueuePage \<Rightarrow> QueuePage" where
  "handleQueueUpdate doctors data st =
     (if data_doctorId data = [] then st
      else st \<lparr> connectionError := None,
                queues := updateDoctorQueue doctors (data_doctorId data) (queueUpdateFn data)
                            (queues st) \<rparr>)"

text \<open>The state of one doctor as the page reads it, \<open>queues[doctorId]\<close>.\<close>

definition doctorState :: "QueuePage \<Rightarrow> string \<Rightarrow> DoctorQueueState option" where
  "doctorState st dId = map_of (queues st) dId"

subsection \<open>fetchQueueData\<close>

text \<open>The object that \<open>fetchQueueData\<close> builds for one entry of the response.\<close>

definition snapshotState :: "QueueUpdateData \<Rightarrow> DoctorQueueState" where
  "snapshotState response =
     \<lparr> departmentId = data_departmentId response,
       departmentName = or_string (data_departmentName response) ''Unknown Department'',
       doctorId = data_doctorId response,
       doctorName = or_string (data_doctorName response) ''Unknown Doctor'',
       waiting =
         (case data_queue response of
            Some q \<Rightarrow> filter (\<lambda>token. status token = CHECKED_IN) q
          | None \<Rightarrow> []),
       active =
         (case data_queue response of
            Some q \<Rightarrow> find (\<lambda>token. status token = IN_PROGRESS) q
          | None \<Rightarrow> None),
       previous =
         (case data_queue response of
            Some q \<Rightarrow> find (\<lambda>token. status token = COMPLETED) q
          | None \<Rightarrow> None),
       totalPatients = data_totalPatients response,
       timestamp = Some (data_timestamp response) \<rparr>"

definition newQueuesState :: "QueueResponse \<Rightarrow> QueuesState" where
  "newQueuesState response =
     (case response of
        Single r \<Rightarrow> [(data_doctorId r, snapshotState r)]
      | Many rs \<Rightarrow>
          foldl (\<lambda>acc queueData. AList.update (data_doctorId queueData) (snapshotState queueData) acc)
            [] rs)"

text \<open>
  \<open>fetchQueueData\<close> with the outcome of \<open>api('/queue?...')\<close> as an input. A rejected
  call, a missing department and an empty \<open>data\<close> all end in the \<open>catch\<close>, which only
  logs. \<open>lastRefresh\<close> is a clock reading and is not part of the model.
\<close>

definition fetchQueueData :: "QueueResponse ApiResult \<Rightarrow> QueuePage \<Rightarrow> QueuePage" where
  "fetchQueueData result st =
     (if \<not> truthy (selectedDepartmentId st) \<and> \<not> truthy (selectedDoctorId st) then st
      else if \<not> truthy (selectedDepartmentId st) then st
      else (case result of
              Rejected e \<Rightarrow> st
            | Resolved None \<Rightarrow> st
            | Resolved (Some response) \<Rightarrow> st \<lparr> queues := newQueuesState response \<rparr>))"

subsection \<open>View projection\<close>

definition truthy_value :: "string option \<Rightarrow> string option" where
  "truthy_value s = (case s of None \<Rightarrow> None | Some v \<Rightarrow> if v = [] then None else Some v)"

definition currentDisplayQueue :: "Doctor list \<Rightarrow> QueuePage \<Rightarrow> DoctorQueueState option" where
  "currentDisplayQueue doctors st =
     (case truthy_value (selectedDoctorId st) of
        Some sd \<Rightarrow> map_of (queues st) sd
      | None \<Rightarrow>
          (case (case truthy_value (selectedDepartmentId st) of
                   Some dep \<Rightarrow> find (\<lambda>d. doc_departmentId d = dep) doctors
                 | None \<Rightarrow> None) of
             Some doctorInDept \<Rightarrow> map_of (queues st) (doc_id doctorInDept)
           | None \<Rightarrow> (case queues st of [] \<Rightarrow> None | q # _ \<Rightarrow> Some (snd q))))"

definition currentToken :: "Doctor list \<Rightarrow> QueuePage \<Rightarrow> QueueItem option" where
  "currentToken doctors st =
     (case currentDisplayQueue doctors st of None \<Rightarrow> None | Some q \<Rightarrow> active q)"

definition nextToken :: "Doctor list \<Rightarrow> QueuePage \<Rightarrow> QueueItem option" where
  "nextToken doctors st =
     (case currentDisplayQueue doctors st of
        None \<Rightarrow> None
      | Some q \<Rightarrow> (case waiting q of [] \<Rightarrow> None | t # _ \<Rightarrow> Some t))"

definition upcomingTokens :: "Doctor list \<Rightarrow> QueuePage \<Rightarrow> QueueItem list" where
  "upcomingTokens doctors st =
     (case currentDisplayQueue doctors st of
        None \<Rightarrow> []
      | Some q \<Rightarrow> take 3 (drop 1 (waiting q)))"

subsection \<open>callNextToken and completeCurrentToken\<close>

text \<open>
  Each action is split at its \<open>await\<close>. The first half returns \<open>None\<close> when the guard
  returns early, and otherwise the state after the optimistic update. The second half
  takes the outcome of \<open>updateTokenStatus\<close> and, for the re-fetch of the \<open>catch\<close>, the
  outcome of \<open>api('/queue?...')\<close>; the re-fetch reads the selection of the state it is
  applied to.
\<close>

definition callNextFn :: "QueueItem \<Rightarrow> DoctorQueueState \<Rightarrow> DoctorQueueState" where
  "callNextFn nextTok prevState =
     prevState \<lparr> waiting := filter (\<lambda>t. tokenId t \<noteq> tokenId nextTok) (waiting prevState),
                 active := Some nextTok,
                 previous := active prevState \<rparr>"

definition callNextBegin :: "Doctor list \<Rightarrow> QueuePage \<Rightarrow> QueuePage option" where
  "callNextBegin doctors st =
     (case currentDisplayQueue doctors st of
        None \<Rightarrow> None
      | Some cdq \<Rightarrow>
          if doctorId cdq = [] then None
          else (case nextToken doctors st of
                  None \<Rightarrow> None
                | Some nextTok \<Rightarrow>
                    Some (st \<lparr> isUpdating := True,
                               queues := updateDoctorQueue doctors (doctorId cdq)
                                           (callNextFn nextTok) (queues st) \<rparr>)))"

definition statusSettled ::
  "unit ApiResult \<Rightarrow> QueueResponse ApiResult \<Rightarrow> QueuePage \<Rightarrow> QueuePage"
where
  "statusSettled putResult fetchResult st =
     (case putResult of
        Resolved u \<Rightarrow> st
      | Rejected e \<Rightarrow> fetchQueueData fetchResult st) \<lparr> isUpdating := False \<rparr>"

definition callNextToken ::
  "Doctor list \<Rightarrow> unit ApiResult \<Rightarrow> QueueResponse ApiResult \<Rightarrow> QueuePage \<Rightarrow> QueuePage"
where
  "callNextToken doctors putResult fetchResult st =
     (case callNextBegin doctors st of
        None \<Rightarrow> st
      | Some st1 \<Rightarrow> statusSettled putResult fetchResult st1)"

definition completeFn :: "DoctorQueueState \<Rightarrow> DoctorQueueState" where
  "completeFn prevState = prevState \<lparr> active := None, previous := active prevState \<rparr>"

definition completeBegin :: "Doctor list \<Rightarrow> QueuePage \<Rightarrow> QueuePage option" where
  "completeBegin doctors st =
     (case currentDisplayQueue doctors st of
        None \<Rightarrow> None
      | Some cdq \<Rightarrow>
          if doctorId cdq = [] then None
          else (case currentToken doctors st of
                  None \<Rightarrow> None
                | Some cur \<Rightarrow>
                    Some (st \<lparr> isUpdating := True,
                               queues := updateDoctorQueue doctors (doctorId cdq) completeFn
                                           (queues st) \<rparr>)))"

definition completeCurrentToken ::
  "Doctor list \<Rightarrow> unit ApiResult \<Rightarrow> QueueResponse ApiResult \<Rightarrow> QueuePage \<Rightarrow> QueuePage"
where
  "completeCurrentToken doctors putResult fetchResult st =
     (case completeBegin doctors st of
        None \<Rightarrow> st
      | Some st1 \<Rightarrow> statusSettled putResult fetchResult st1)"

subsection \<open>Selection\<close>

text \<open>The two \<open>select\<close> controls: choosing a department resets the doctor to \<open>""\<close>.\<close>

definition selectDepartment :: "string \<Rightarrow> QueuePage \<Rightarrow> QueuePage" where
  "selectDepartment v st = st \<lparr> selectedDepartmentId := Some v, selectedDoctorId := Some [] \<rparr>"

definition selectDoctor :: "string \<Rightarrow> QueuePage \<Rightarrow> QueuePage" where
  "selectDoctor v st = st \<lparr> selectedDoctorId := Some v \<rparr>"

definition initialPage :: QueuePage where
  "initialPage =
     \<lparr> selectedDepartmentId = None, selectedDoctorId = None, queues = [],
       isUpdating = False, updatingPriorities = (\<lambda>k. None), connectionError = None \<rparr>"

subsection \<open>Runs of the queue page\<close>

text \<open>
  What can happen to the page, one handler at a time: a \<open>queue_update\<close> push, a click
  on "Call Next Token" or "Complete Current" (up to the \<open>await\<close>), the settling of
  the status request (with the re-fetch when it was rejected), a fetch (on open or on
  retry) and the two selections. The handlers do not test \<open>isUpdating\<close>; the buttons
  do, so the runs below include every run of the page.
\<close>

datatype PageEvent =
    QueueUpdateEv QueueUpdateData
  | CallNextEv
  | CompleteEv
  | StatusSettledEv "unit ApiResult" "QueueResponse ApiResult"
  | FetchEv "QueueResponse ApiResult"
  | SelectDepartmentEv string
  | SelectDoctorEv string

fun step :: "Doctor list \<Rightarrow> QueuePage \<Rightarrow> PageEvent \<Rightarrow> QueuePage" where
  "step doctors st (QueueUpdateEv data) = handleQueueUpdate doctors data st"
| "step doctors st CallNextEv =
     (case callNextBegin doctors st of None \<Rightarrow> st | Some st1 \<Rightarrow> st1)"
| "step doctors st CompleteEv =
     (case completeBegin doctors st of None \<Rightarrow> st | Some st1 \<Rightarrow> st1)"
| "step doctors st (StatusSettledEv putResult fetchResult) =
     statusSettled putResult fetchResult st"
| "step doctors st (FetchEv result) = fetchQueueData result st"
| "step doctors st (SelectDepartmentEv v) = selectDepartment v st"
| "step doctors st (SelectDoctorEv v) = selectDoctor v st"

definition run :: "Doctor list \<Rightarrow> PageEvent list \<Rightarrow> QueuePage \<Rightarrow> QueuePage" where
  "run doctors evs st = foldl (step doctors) st evs"

subsection \<open>UpdatePriorityButton and handleUpdatePriority\<close>

datatype PriorityAction = increase | decrease

text \<open>The request that \<open>updateTokenPriority(tokenId, action)\<close> sends.\<close>

datatype Request = UpdateTokenPriority string PriorityAction

text \<open>
  The \<open>disabled\<close> attribute of the two buttons. \<open>updatingPriorities[tokenId]\<close> is
  truthy exactly when the record holds \<open>true\<close> for the token.
\<close>

definition buttonDisabled ::
  "PriorityAction \<Rightarrow> string \<Rightarrow> TokenPriority \<Rightarrow> (string \<Rightarrow> bool option) \<Rightarrow> bool"
where
  "buttonDisabled action tId prio updating =
     (case action of
        decrease \<Rightarrow> updating tId = Some True \<or> prio = NORMAL
      | increase \<Rightarrow> updating tId = Some True \<or> prio = EMERGENCY)"

text \<open>
  \<open>handleUpdatePriority\<close> up to its \<open>await\<close>: the in-flight flag is set and the request
  goes out. Its \<open>finally\<close> clears the flag, whatever the outcome.
\<close>

definition handleUpdatePriority :: "string \<Rightarrow> PriorityAction \<Rightarrow> QueuePage \<Rightarrow> QueuePage \<times> Request list" where
  "handleUpdatePriority tId action st =
     (st \<lparr> updatingPriorities := (updatingPriorities st)(tId \<mapsto> True) \<rparr>,
      [UpdateTokenPriority tId action])"

definition handleUpdatePriorityFinally :: "string \<Rightarrow> QueuePage \<Rightarrow> QueuePage" where
  "handleUpdatePriorityFinally tId st =
     st \<lparr> updatingPriorities := (updatingPriorities st)(tId \<mapsto> False) \<rparr>"

text \<open>
  A click on one of the two buttons rendered for a token with the given priority: a
  disabled button dispatches no click, an enabled one calls \<open>handleUpdatePriority\<close>.
\<close>

definition clickPriorityButton ::
  "PriorityAction \<Rightarrow> string \<Rightarrow> TokenPriority \<Rightarrow> QueuePage \<Rightarrow> QueuePage \<times> Request list"
where
  "clickPriorityButton action tId prio st =
     (if buttonDisabled action tId prio (updatingPriorities st) then (st, [])
      else handleUpdatePriority tId action st)"

section \<open>The component src/components/QueueDisplay.tsx\<close>

text \<open>
  The older component keeps the waiting lists and the active tokens apart. Its types
  share names with the page's; here the item's fields carry the prefix \<open>qi_\<close>, the
  payload's \<open>c_\<close>, the queue state's \<open>qs_\<close> and the event's \<open>tc_\<close>.
\<close>

record QueueItemC =
  qi_tokenId :: string
  qi_tokenValue :: string
  qi_priority :: TokenPriority
  qi_departmentId :: string
  qi_score :: int
  qi_rank :: int
  qi_patientName :: "string option"

record QueueUpdateDataC =
  c_departmentId :: string
  c_doctorId :: string
  c_queue :: "QueueItemC list option"
  c_departmentName :: "string option"
  c_doctorName :: "string option"

record QueueState =
  qs_departmentId :: string
  qs_departmentName :: string
  qs_doctorId :: string
  qs_doctorName :: string
  qs_queue :: "QueueItemC list"

record TokenCalledData =
  tc_tokenId :: string
  tc_tokenValue :: string
  tc_departmentId :: string
  tc_doctorId :: string

record ActiveTokens =
  at_current :: "QueueItemC option"
  at_previous :: "QueueItemC option"

datatype QueueResponseC = SingleC QueueUpdateDataC | ManyC "QueueUpdateDataC list"

text \<open>
  \<open>activeTokens\<close> is only ever read at one key, so it is a map; its keys are the
  template strings \<open>`${departmentId}-${doctorId}`\<close>.
\<close>

record QueueDisplayC =
  selectedDepartmentIdC :: string
  selectedDoctorIdC :: string
  waitingQueues :: "QueueState list"
  isLoading :: bool
  errorC :: "string option"
  activeTokens :: "string \<Rightarrow> ActiveTokens option"
  lastCalledToken :: "TokenCalledData option"
  isUpdatingC :: bool

definition activeKey :: "string \<Rightarrow> string \<Rightarrow> string" where
  "activeKey dep doc = dep @ ''-'' @ doc"

definition removeToken :: "string \<Rightarrow> string \<Rightarrow> string \<Rightarrow> QueueState list \<Rightarrow> QueueState list" where
  "removeToken dep doc tId prev =
     map (\<lambda>q. if qs_departmentId q = dep \<and> qs_doctorId q = doc
               then q \<lparr> qs_queue := filter (\<lambda>t. qi_tokenId t \<noteq> tId) (qs_queue q) \<rparr>
               else q) prev"

subsection \<open>handleTokenCalled and the effect that processes the event\<close>





subsection \<open>fetchQueueData and callNextToken of the component\<close>

definition transformQueue :: "QueueUpdateDataC \<Rightarrow> QueueState" where
  "transformQueue queue =
     \<lparr> qs_departmentId = c_departmentId queue,
       qs_departmentName = or_string (c_departmentName queue) ''Unknown Department'',
       qs_doctorId = c_doctorId queue,
       qs_doctorName = or_string (c_doctorName queue) ''Unknown Doctor'',
       qs_queue = (case c_queue queue of Some q \<Rightarrow> q | None \<Rightarrow> []) \<rparr>"

definition clearActive ::
  "QueueState list \<Rightarrow> (string \<Rightarrow> ActiveTokens option) \<Rightarrow> (string \<Rightarrow> ActiveTokens option)"
where
  "clearActive transformedData prev =
     foldl (\<lambda>newActiveTokens q.
              newActiveTokens
                (activeKey (qs_departmentId q) (qs_doctorId q) \<mapsto>
                   \<lparr> at_current = None, at_previous = None \<rparr>))
       prev transformedData"

definition fetchQueueDataC :: "QueueResponseC ApiResult \<Rightarrow> QueueDisplayC \<Rightarrow> QueueDisplayC" where
  "fetchQueueDataC result st =
     (if selectedDepartmentIdC st = [] \<and> selectedDoctorIdC st = [] then st
      else (case result of
              Rejected msg \<Rightarrow> st \<lparr> isLoading := False, errorC := Some msg \<rparr>
            | Resolved None \<Rightarrow>
                st \<lparr> isLoading := False, errorC := Some ''Failed to fetch queue data'' \<rparr>
            | Resolved (Some response) \<Rightarrow>
                (let queueData = (case response of SingleC q \<Rightarrow> [q] | ManyC qs \<Rightarrow> qs);
                     transformedData = map transformQueue queueData
                 in st \<lparr> waitingQueues := transformedData,
                          isLoading := False,
                          errorC := None,
                          activeTokens := clearActive transformedData (activeTokens st) \<rparr>)))"

definition currentDisplayQueueState :: "QueueDisplayC \<Rightarrow> QueueState option" where
  "currentDisplayQueueState st =
     (if selectedDoctorIdC st \<noteq> [] then
        find (\<lambda>qs. qs_doctorId qs = selectedDoctorIdC st \<and>
                   (selectedDepartmentIdC st = ''all'' \<or>
                    qs_departmentId qs = selectedDepartmentIdC st))
          (waitingQueues st)
      else if selectedDepartmentIdC st \<noteq> [] \<and> selectedDepartmentIdC st \<noteq> ''all'' then
        find (\<lambda>qs. qs_departmentId qs = selectedDepartmentIdC st) (waitingQueues st)
      else (case waitingQueues st of [] \<Rightarrow> None | q # _ \<Rightarrow> Some q))"

definition nextTokenC :: "QueueDisplayC \<Rightarrow> QueueItemC option" where
  "nextTokenC st =
     (case currentDisplayQueueState st of
        None \<Rightarrow> None
      | Some q \<Rightarrow> (case qs_queue q of [] \<Rightarrow> None | t # _ \<Rightarrow> Some t))"

definition callNextBeginC :: "QueueDisplayC \<Rightarrow> QueueDisplayC option" where
  "callNextBeginC st =
     (case currentDisplayQueueState st of
        None \<Rightarrow> None
      | Some cdq \<Rightarrow>
          if qs_doctorId cdq = [] then None
          else (case nextTokenC st of
                  None \<Rightarrow> None
                | Some nextTok \<Rightarrow>
                    (let key = activeKey (qs_departmentId cdq) (qs_doctorId cdq)
                     in Some (st \<lparr> isUpdatingC := True,
                                    activeTokens :=
                                      (activeTokens st)
                                        (key \<mapsto>
                                           \<lparr> at_current = Some nextTok,
                                             at_previous =
                                               (case activeTokens st key of
                                                  Some a \<Rightarrow> at_current a
                                                | None \<Rightarrow> None) \<rparr>),
                                    waitingQueues :=
                                      removeToken (qs_departmentId cdq) (qs_doctorId cdq)
                                        (qi_tokenId nextTok) (waitingQueues st) \<rparr>))))"

definition callNextTokenC ::
  "unit ApiResult \<Rightarrow> QueueResponseC ApiResult \<Rightarrow> QueueDisplayC \<Rightarrow> QueueDisplayC"
where
  "callNextTokenC putResult fetchResult st =
     (case callNextBeginC st of
        None \<Rightarrow> st
      | Some st1 \<Rightarrow>
          (case putResult of
             Resolved u \<Rightarrow> st1
           | Rejected e \<Rightarrow>
               fetchQueueDataC fetchResult
                 (st1 \<lparr> errorC := Some ''Failed to call next token. Please try again.'' \<rparr>))
            \<lparr> isUpdatingC := False \<rparr>)"

section \<open>The hook src/hooks/useEventSource.ts\<close>

text \<open>
  The hook's refs and props are one record. \<open>eventSource\<close> holds the ready state of the
  \<open>EventSource\<close> that \<open>eventSource.current\<close> refers to, \<open>reconnectTimeoutRef\<close> the
  delay of the pending timer. \<open>effects\<close> logs, oldest first, what the hook does to the
  outside: the callbacks it calls, the timers it sets and the alert.
\<close>

datatype ReadyState = CONNECTING | OPEN | CLOSED

datatype HookEffect = OnOpen | OnReconnect | OnError | OnMessage | SetTimeout real | Alert

record EventSourceHook =
  prop_departmentId :: "string option"
  prop_doctorId :: "string option"
  reconnectOnClose :: bool
  VITE_BASE_URL :: "string option"
  eventSource :: "ReadyState option"
  reconnectAttempts :: nat
  reconnectTimeoutRef :: "real option"
  isInitialConnect :: bool
  lastDepartmentId :: "string option"
  lastDoctorId :: "string option"
  hasBothIds :: bool
  effects :: "HookEffect list"

definition cleanup :: "EventSourceHook \<Rightarrow> EventSourceHook" where
  "cleanup st = st \<lparr> eventSource := None, reconnectTimeoutRef := None \<rparr>"

definition connectSSE :: "EventSourceHook \<Rightarrow> EventSourceHook" where
  "connectSSE st =
     (if \<not> truthy (prop_departmentId st) \<or> \<not> truthy (prop_doctorId st) then st
      else if \<not> truthy (VITE_BASE_URL st) then st
      else (cleanup st) \<lparr> reconnectAttempts := 0, eventSource := Some CONNECTING \<rparr>)"

definition onopen :: "EventSourceHook \<Rightarrow> EventSourceHook" where
  "onopen st =
     (let st1 = st \<lparr> eventSource := Some OPEN, reconnectAttempts := 0 \<rparr>
      in if isInitialConnect st1
         then st1 \<lparr> effects := effects st1 @ [OnOpen], isInitialConnect := False \<rparr>
         else st1 \<lparr> effects := effects st1 @ [OnReconnect] \<rparr>)"

text \<open>
  \<open>onerror\<close>, with the value \<open>r\<close> that \<open>Math.random()\<close> returns (\<open>0 \<le> r < 1\<close>) as
  an input. The handler closes its source and leaves \<open>eventSource.current\<close> pointing to
  it.
\<close>

definition onerror :: "real \<Rightarrow> EventSourceHook \<Rightarrow> EventSourceHook" where
  "onerror r st =
     (let st1 = st \<lparr> effects := effects st @ [OnError], eventSource := Some CLOSED \<rparr>
      in if reconnectOnClose st1 \<and> reconnectAttempts st1 < 5 then
           (let baseDelay = min (1000 * 2 ^ reconnectAttempts st1) (10000 :: real);
                jitter = r * 1000;
                timeout = baseDelay + jitter
            in st1 \<lparr> reconnectAttempts := reconnectAttempts st1 + 1,
                     reconnectTimeoutRef := Some timeout,
                     effects := effects st1 @ [SetTimeout timeout] \<rparr>)
         else if reconnectAttempts st1 \<ge> 5 then st1 \<lparr> effects := effects st1 @ [Alert] \<rparr>
         else st1)"

text \<open>
  The callback of the reconnect timer. When it does not reconnect, the id of the fired
  timer stays in the ref, where it is inert; the model drops it.
\<close>

definition timerFires :: "EventSourceHook \<Rightarrow> EventSourceHook" where
  "timerFires st =
     (if truthy (prop_departmentId st) \<and> truthy (prop_doctorId st) then connectSSE st
      else st \<lparr> reconnectTimeoutRef := None \<rparr>)"

text \<open>The main effect: its body, and the cleanup that runs before the next body.\<close>

definition effectBody :: "EventSourceHook \<Rightarrow> EventSourceHook" where
  "effectBody st =
     (let bothIdsNow = truthy (prop_departmentId st) \<and> truthy (prop_doctorId st);
          idsChanged = prop_departmentId st \<noteq> lastDepartmentId st \<or>
                       prop_doctorId st \<noteq> lastDoctorId st
      in if bothIdsNow \<and> (idsChanged \<or> \<not> hasBothIds st) then
           connectSSE (st \<lparr> lastDepartmentId := prop_departmentId st,
                            lastDoctorId := prop_doctorId st,
                            hasBothIds := True \<rparr>)
         else if \<not> bothIdsNow \<and> hasBothIds st then cleanup (st \<lparr> hasBothIds := False \<rparr>)
         else st)"

definition effectCleanup :: "EventSourceHook \<Rightarrow> EventSourceHook" where
  "effectCleanup st = (if \<not> reconnectOnClose st \<or> \<not> hasBothIds st then cleanup st else st)"

definition mountHook ::
  "string option \<Rightarrow> string option \<Rightarrow> bool \<Rightarrow> string option \<Rightarrow> EventSourceHook"
where
  "mountHook dep doc roc url =
     effectBody
       \<lparr> prop_departmentId = dep, prop_doctorId = doc, reconnectOnClose = roc,
         VITE_BASE_URL = url, eventSource = None, reconnectAttempts = 0,
         reconnectTimeoutRef = None, isInitialConnect = True, lastDepartmentId = dep,
         lastDoctorId = doc, hasBothIds = (truthy dep \<and> truthy doc), effects = [] \<rparr>"

definition rerender :: "string option \<Rightarrow> string option \<Rightarrow> EventSourceHook \<Rightarrow> EventSourceHook" where
  "rerender dep doc st =
     effectBody ((effectCleanup st) \<lparr> prop_departmentId := dep, prop_doctorId := doc \<rparr>)"

text \<open>
  What can happen to a mounted hook. A source fires \<open>open\<close> only while connecting,
  \<open>error\<close> and messages only before it is closed, and a timer fires only while pending:
  an event that cannot happen leaves the state as it is.
\<close>

datatype HookEvent =
    Rerender "string option" "string option"
  | SourceOpen
  | SourceError real
  | SourceMessage
  | TimerFires

fun hookStep :: "EventSourceHook \<Rightarrow> HookEvent \<Rightarrow> EventSourceHook" where
  "hookStep st (Rerender dep doc) = rerender dep doc st"
| "hookStep st SourceOpen = (if eventSource st = Some CONNECTING then onopen st else st)"
| "hookStep st (SourceError r) =
     (if eventSource st = Some CONNECTING \<or> eventSource st = Some OPEN then onerror r st
      else st)"
| "hookStep st SourceMessage =
     (if eventSource st = Some OPEN then st \<lparr> effects := effects st @ [OnMessage] \<rparr> else st)"
| "hookStep st TimerFires = (if reconnectTimeoutRef st \<noteq> None then timerFires st else st)"

definition runHook :: "HookEvent list \<Rightarrow> EventSourceHook \<Rightarrow> EventSourceHook" where
  "runHook evs st = foldl hookStep st evs"

text \<open>The delays of the timers set so far, oldest first.\<close>

fun delays :: "HookEffect list \<Rightarrow> real list" where
  "delays [] = []"
| "delays (SetTimeout t # es) = t # delays es"
| "delays (e # es) = delays es"

section \<open>Predicates and sample data used by the properties\<close>

subsection \<open>The queue invariant\<close>

definition activeNotWaiting :: "DoctorQueueState \<Rightarrow> bool" where
  "activeNotWaiting s =
     (case active s of None \<Rightarrow> True | Some a \<Rightarrow> tokenId a \<notin> set (map tokenId (waiting s)))"

text \<open>
  One entry per doctor (so at most one \<open>active\<close> per doctor), and in each entry the
  active token is not waiting.
\<close>

definition page_inv :: "QueuePage \<Rightarrow> bool" where
  "page_inv st =
     (distinct (map fst (queues st)) \<and> list_all (\<lambda>kv. activeNotWaiting (snd kv)) (queues st))"

definition queueOf :: "QueueUpdateData \<Rightarrow> QueueItem list" where
  "queueOf data = (case data_queue data of Some q \<Rightarrow> q | None \<Rightarrow> [])"

definition checkedInIds :: "QueueUpdateData \<Rightarrow> string list" where
  "checkedInIds data = map tokenId (filter (\<lambda>t. status t = CHECKED_IN) (queueOf data))"

text \<open>No token id is listed both as \<open>IN_PROGRESS\<close> and as \<open>CHECKED_IN\<close>.\<close>

definition payloadConsistent :: "QueueUpdateData \<Rightarrow> bool" where
  "payloadConsistent data =
     list_all (\<lambda>t. status t \<noteq> IN_PROGRESS \<or> tokenId t \<notin> set (checkedInIds data)) (queueOf data)"

text \<open>
  An update that carries no \<open>IN_PROGRESS\<close> token does not list the doctor's held
  active token as \<open>CHECKED_IN\<close>.
\<close>

definition keepsActiveApart :: "Doctor list \<Rightarrow> QueuePage \<Rightarrow> QueueUpdateData \<Rightarrow> bool" where
  "keepsActiveApart doctors st data =
     (case find (\<lambda>t. status t = IN_PROGRESS) (queueOf data) of
        Some t \<Rightarrow> True
      | None \<Rightarrow>
          (case active (existingState doctors (data_doctorId data) (queues st)) of
             None \<Rightarrow> True
           | Some a \<Rightarrow> tokenId a \<notin> set (checkedInIds data)))"

definition responseItems :: "QueueResponse \<Rightarrow> QueueUpdateData list" where
  "responseItems response = (case response of Single r \<Rightarrow> [r] | Many rs \<Rightarrow> rs)"

definition resultConsistent :: "QueueResponse ApiResult \<Rightarrow> bool" where
  "resultConsistent result =
     (case result of
        Resolved (Some response) \<Rightarrow> list_all payloadConsistent (responseItems response)
      | _ \<Rightarrow> True)"

fun event_ok :: "Doctor list \<Rightarrow> QueuePage \<Rightarrow> PageEvent \<Rightarrow> bool" where
  "event_ok doctors st (QueueUpdateEv data) =
     (payloadConsistent data \<and> keepsActiveApart doctors st data)"
| "event_ok doctors st (StatusSettledEv putResult fetchResult) = resultConsistent fetchResult"
| "event_ok doctors st (FetchEv result) = resultConsistent result"
| "event_ok doctors st ev = True"

fun events_ok :: "Doctor list \<Rightarrow> QueuePage \<Rightarrow> PageEvent list \<Rightarrow> bool" where
  "events_ok doctors st [] = True"
| "events_ok doctors st (ev # evs) =
     (event_ok doctors st ev \<and> events_ok doctors (step doctors st ev) evs)"

subsection \<open>Sample data\<close>

definition tokA :: QueueItem where
  "tokA = \<lparr> tokenId = ''t1'', tokenValue = ''A001'', priority = NORMAL, patientId = ''p1'',
            patientName = ''Ann'', scheduledDate = ''2025-01-06'', status = CHECKED_IN,
            score = 10, rank = 1 \<rparr>"

definition tokB :: QueueItem where
  "tokB = \<lparr> tokenId = ''t2'', tokenValue = ''A002'', priority = HIGH, patientId = ''p2'',
            patientName = ''Bob'', scheduledDate = ''2025-01-06'', status = CHECKED_IN,
            score = 8, rank = 2 \<rparr>"

definition doctors0 :: "Doctor list" where
  "doctors0 = [\<lparr> doc_id = ''d1'', doc_fullName = ''Rao'', doc_departmentId = ''dep1'' \<rparr>,
               \<lparr> doc_id = ''d2'', doc_fullName = ''Sen'', doc_departmentId = ''dep1'' \<rparr>]"

definition snapshot0 :: QueueUpdateData where
  "snapshot0 =
     \<lparr> data_departmentId = ''dep1'', data_doctorId = ''d1'',
       data_departmentName = Some ''General'', data_doctorName = Some ''Rao'',
       data_queue = Some [tokA, tokB], data_totalPatients = 2, data_timestamp = 2000 \<rparr>"

text \<open>An update stamped before \<open>snapshot0\<close>, with only the second token waiting.\<close>

definition staleUpdate :: QueueUpdateData where
  "staleUpdate =
     snapshot0 \<lparr> data_queue := Some [tokB], data_totalPatients := 1, data_timestamp := 1000 \<rparr>"

text \<open>An update stamped after \<open>snapshot0\<close> that still lists both tokens as waiting.\<close>

definition laterUpdate :: QueueUpdateData where
  "laterUpdate = snapshot0 \<lparr> data_timestamp := 3000 \<rparr>"

text \<open>The page after choosing department and doctor and fetching \<open>snapshot0\<close>.\<close>

definition page0 :: QueuePage where
  "page0 =
     run doctors0
       [SelectDepartmentEv ''dep1'', SelectDoctorEv ''d1'',
        FetchEv (Resolved (Some (Single snapshot0)))]
       initialPage"

text \<open>The snapshot as the server sends it once it has marked the first token as called.\<close>

definition confirmedUpdate :: QueueUpdateData where
  "confirmedUpdate =
     snapshot0 \<lparr> data_queue := Some [tokA \<lparr> status := IN_PROGRESS \<rparr>, tokB],
                 data_timestamp := 3000 \<rparr>"

definition otherUpdate :: QueueUpdateData where
  "otherUpdate =
     \<lparr> data_departmentId = ''dep1'', data_doctorId = ''d2'', data_departmentName = None,
       data_doctorName = None, data_queue = Some [], data_totalPatients = 0,
       data_timestamp = 2500 \<rparr>"

text \<open>\<open>page0\<close> after a push for a second doctor: the record holds two doctors.\<close>

definition pageTwo :: QueuePage where
  "pageTwo = handleQueueUpdate doctors0 otherUpdate page0"

subsection \<open>Sample data for the component\<close>

definition responseItemsC :: "QueueResponseC \<Rightarrow> QueueUpdateDataC list" where
  "responseItemsC response = (case response of SingleC q \<Rightarrow> [q] | ManyC qs \<Rightarrow> qs)"

text \<open>The keys of \<open>activeTokens\<close> that a response covers, and the key of the displayed queue.\<close>

definition coveredKeys :: "QueueResponseC \<Rightarrow> string list" where
  "coveredKeys response =
     map (\<lambda>q. activeKey (c_departmentId q) (c_doctorId q)) (responseItemsC response)"

definition displayedKey :: "QueueDisplayC \<Rightarrow> string option" where
  "displayedKey st =
     map_option (\<lambda>q. activeKey (qs_departmentId q) (qs_doctorId q)) (currentDisplayQueueState st)"

definition itemA :: QueueItemC where
  "itemA = \<lparr> qi_tokenId = ''t1'', qi_tokenValue = ''A001'', qi_priority = NORMAL,
             qi_departmentId = ''dep1'', qi_score = 10, qi_rank = 1,
             qi_patientName = Some ''Ann'' \<rparr>"

definition itemB :: QueueItemC where
  "itemB = \<lparr> qi_tokenId = ''t2'', qi_tokenValue = ''A002'', qi_priority = HIGH,
             qi_departmentId = ''dep1'', qi_score = 8, qi_rank = 2,
             qi_patientName = Some ''Bob'' \<rparr>"

definition responseC0 :: QueueUpdateDataC where
  "responseC0 =
     \<lparr> c_departmentId = ''dep1'', c_doctorId = ''d1'', c_queue = Some [itemA, itemB],
       c_departmentName = Some ''General'', c_doctorName = Some ''Rao'' \<rparr>"

text \<open>The component with department and doctor chosen, after fetching \<open>responseC0\<close>.\<close>

definition display0 :: QueueDisplayC where
  "display0 =
     fetchQueueDataC (Resolved (Some (SingleC responseC0)))
       \<lparr> selectedDepartmentIdC = ''dep1'', selectedDoctorIdC = ''d1'', waitingQueues = [],
         isLoading = False, errorC = None, activeTokens = (\<lambda>k. None),
         lastCalledToken = None, isUpdatingC = False \<rparr>"


subsection \<open>Sample data for the hook\<close>

text \<open>
  The hook as the page mounts it, with no selection yet, and after the page has chosen
  department \<open>dep1\<close> and doctor \<open>d1\<close>: the first connection is under way.
\<close>

definition hook0 :: EventSourceHook where
  "hook0 = mountHook None None True (Some ''http://localhost:3000'')"

definition connected0 :: EventSourceHook where
  "connected0 = rerender (Some ''dep1'') (Some ''d1'') hook0"

text \<open>
  While a source is live the attempt counter is \<open>0\<close>; the counter never exceeds \<open>1\<close>;
  no alert has been raised.
\<close>

definition hook_inv :: "EventSourceHook \<Rightarrow> bool" where
  "hook_inv st =
     ((eventSource st = Some CONNECTING \<or> eventSource st = Some OPEN \<longrightarrow>
         reconnectAttempts st = 0) \<and>
      reconnectAttempts st \<le> 1 \<and> Alert \<notin> set (effects st))"

text \<open>\<open>page0\<close> after a click on "Call Next Token": the first token is optimistically active.\<close>

definition pageCalled :: QueuePage where
  "pageCalled = step doctors0 page0 CallNextEv"

text \<open>
  The tokens for which the page renders the two priority buttons (the next token and
  the upcoming ones), and a click on one of them: the button's \<open>tokenId\<close> and
  \<open>priority\<close> props are the token's own.
\<close>

definition renderedTokens :: "Doctor list \<Rightarrow> QueuePage \<Rightarrow> QueueItem list" where
  "renderedTokens doctors st =
     (case nextToken doctors st of None \<Rightarrow> [] | Some t \<Rightarrow> [t]) @ upcomingTokens doctors st"

definition clickRenderedButton ::
  "Doctor list \<Rightarrow> PriorityAction \<Rightarrow> QueueItem \<Rightarrow> QueuePage \<Rightarrow> QueuePage \<times> Request list"
where
  "clickRenderedButton doctors action tok st =
     (if tok \<in> set (renderedTokens doctors st)
      then clickPriorityButton action (tokenId tok) (priority tok) st
      else (st, []))"

section \<open>Properties of the queue page\<close>

subsection \<open>Auxiliary facts\<close>

lemma find_SomeD: "find P xs = Some x \<Longrightarrow> x \<in> set xs \<and> P x"
  by (induction xs) (auto split: if_splits)

lemma find_eq_None_set: "(find P xs = None) = (\<forall>x\<in>set xs. \<not> P x)"
  by (induction xs) auto

lemma find_append_case:
  "find P (xs @ ys) = (case find P xs of Some x \<Rightarrow> Some x | None \<Rightarrow> find P ys)"
  by (induction xs) auto



lemma list_all_update:
  "P (k, v) \<Longrightarrow> list_all P al \<Longrightarrow> list_all P (AList.update k v al)"
  by (induction al) auto

lemma map_of_updateDoctorQueue:
  "map_of (updateDoctorQueue doctors d f qs) d = Some (f (existingState doctors d qs))"
  by (simp add: updateDoctorQueue_def update_conv')

lemma doctorState_handleQueueUpdate:
  "data_doctorId data \<noteq> [] \<Longrightarrow>
   doctorState (handleQueueUpdate doctors data st) (data_doctorId data) =
     Some (queueUpdateFn data (existingState doctors (data_doctorId data) (queues st)))"
  by (simp add: doctorState_def handleQueueUpdate_def map_of_updateDoctorQueue)

lemma waiting_queueUpdateFn:
  "waiting (queueUpdateFn data prev) = filter (\<lambda>t. status t = CHECKED_IN) (queueOf data)"
  by (simp add: queueUpdateFn_def queueOf_def Let_def split: option.splits)

lemma active_queueUpdateFn:
  "active (queueUpdateFn data prev) =
     (case find (\<lambda>t. status t = IN_PROGRESS) (queueOf data) of
        Some t \<Rightarrow> Some t
      | None \<Rightarrow> active prev)"
  by (simp add: queueUpdateFn_def queueOf_def or_option_def Let_def split: option.splits)


lemma timestamp_queueUpdateFn:
  "timestamp (queueUpdateFn data prev) = Some (data_timestamp data)"
  by (simp add: queueUpdateFn_def Let_def)

lemma page0_queues: "queues page0 = [(''d1'', snapshotState snapshot0)]"
  by (simp add: page0_def run_def selectDepartment_def selectDoctor_def fetchQueueData_def
      initialPage_def truthy_def newQueuesState_def snapshot0_def)

lemma page0_selection:
  "selectedDepartmentId page0 = Some ''dep1'' \<and> selectedDoctorId page0 = Some ''d1''"
  by (simp add: page0_def run_def selectDepartment_def selectDoctor_def fetchQueueData_def
      initialPage_def truthy_def)

lemma snapshotState_snapshot0:
  "snapshotState snapshot0 =
     \<lparr> departmentId = ''dep1'', departmentName = ''General'', doctorId = ''d1'',
       doctorName = ''Rao'', waiting = [tokA, tokB], active = None, previous = None,
       totalPatients = 2, timestamp = Some 2000 \<rparr>"
  by (simp add: snapshotState_def snapshot0_def or_string_def tokA_def tokB_def)

lemma pageCalled_queues:
  "queues pageCalled =
     [(''d1'', \<lparr> departmentId = ''dep1'', departmentName = ''General'', doctorId = ''d1'',
                doctorName = ''Rao'', waiting = [tokB], active = Some tokA, previous = None,
                totalPatients = 2, timestamp = Some 2000 \<rparr>)]"
  by (simp add: pageCalled_def callNextBegin_def currentDisplayQueue_def nextToken_def
      truthy_value_def page0_selection page0_queues snapshotState_snapshot0
      updateDoctorQueue_def existingState_def callNextFn_def tokA_def tokB_def)

subsection \<open>Queue updates\<close>



text \<open>
  Claim C1, as the code has it. The handler never compares timestamps: every update that
  names a doctor is applied, and leaves the doctor's stored timestamp equal to the
  update's own and \<open>waiting\<close> equal to the update's \<open>CHECKED_IN\<close> tokens, also when the
  update is older than what is stored. An update without a doctor id is ignored.
\<close>

theorem queue_update_applied_whatever_its_timestamp:
  "(if data_doctorId data = [] then handleQueueUpdate doctors data st = st
    else map_option timestamp
           (doctorState (handleQueueUpdate doctors data st) (data_doctorId data)) =
           Some (Some (data_timestamp data)) \<and>
         map_option waiting
           (doctorState (handleQueueUpdate doctors data st) (data_doctorId data)) =
           Some (filter (\<lambda>t. status t = CHECKED_IN) (queueOf data)))"
  by (simp add: doctorState_handleQueueUpdate timestamp_queueUpdateFn waiting_queueUpdateFn)
     (simp add: handleQueueUpdate_def)

theorem queue_update_applied_whatever_its_timestamp_witness:
  "map_option timestamp (doctorState page0 ''d1'') = Some (Some 2000) \<and>
   map_option timestamp (doctorState (handleQueueUpdate doctors0 staleUpdate page0) ''d1'') =
     Some (Some 1000) \<and>
   map_option waiting (doctorState (handleQueueUpdate doctors0 staleUpdate page0) ''d1'') =
     Some [tokB]"
proof -
  have d: "data_doctorId staleUpdate = ''d1''" by (simp add: staleUpdate_def snapshot0_def)
  have t: "data_timestamp staleUpdate = 1000" by (simp add: staleUpdate_def)
  have q: "filter (\<lambda>t. status t = CHECKED_IN) (queueOf staleUpdate) = [tokB]"
    by (simp add: queueOf_def staleUpdate_def tokB_def)
  have a: "map_option timestamp (doctorState page0 ''d1'') = Some (Some 2000)"
    by (simp add: doctorState_def page0_queues snapshotState_snapshot0)
  from queue_update_applied_whatever_its_timestamp [of staleUpdate doctors0 page0]
  show ?thesis by (simp add: d t q a)
qed

text \<open>
  The claim as stated fails: \<open>page0\<close> holds timestamp 2000 for doctor \<open>d1\<close>, the update
  is stamped 1000, and applying it changes the state.
\<close>

theorem stale_update_changes_state:
  "map_option timestamp (doctorState page0 ''d1'') = Some (Some 2000) \<and>
   data_timestamp staleUpdate = 1000 \<and>
   handleQueueUpdate doctors0 staleUpdate page0 \<noteq> page0"
proof -
  have a: "map_option timestamp (doctorState page0 ''d1'') = Some (Some 2000)"
    by (simp add: doctorState_def page0_queues snapshotState_snapshot0)
  have d: "data_doctorId staleUpdate = ''d1''" by (simp add: staleUpdate_def snapshot0_def)
  have "map_option timestamp (doctorState (handleQueueUpdate doctors0 staleUpdate page0) ''d1'') =
          Some (Some 1000)"
    using doctorState_handleQueueUpdate [of staleUpdate doctors0 page0]
    by (simp add: d timestamp_queueUpdateFn) (simp add: staleUpdate_def)
  with a have "handleQueueUpdate doctors0 staleUpdate page0 \<noteq> page0" by auto
  with a show ?thesis by (simp add: staleUpdate_def)
qed

subsection \<open>The invariant along runs\<close>

lemma existingState_inv:
  assumes "list_all (\<lambda>kv. activeNotWaiting (snd kv)) qs"
  shows "activeNotWaiting (existingState doctors d qs)"
proof (cases "map_of qs d")
  case None
  then show ?thesis by (simp add: existingState_def activeNotWaiting_def)
next
  case (Some s)
  then have "(d, s) \<in> set qs" by (rule map_of_SomeD)
  with assms have "activeNotWaiting s" by (auto simp: list_all_iff)
  with Some show ?thesis by (simp add: existingState_def)
qed

lemma updateDoctorQueue_inv:
  assumes "distinct (map fst qs)" and "list_all (\<lambda>kv. activeNotWaiting (snd kv)) qs"
    and "activeNotWaiting (f (existingState doctors d qs))"
  shows "distinct (map fst (updateDoctorQueue doctors d f qs)) \<and>
         list_all (\<lambda>kv. activeNotWaiting (snd kv)) (updateDoctorQueue doctors d f qs)"
  using assms by (simp add: updateDoctorQueue_def distinct_update list_all_update)

lemma snapshotState_inv:
  assumes "payloadConsistent data"
  shows "activeNotWaiting (snapshotState data)"
proof (cases "data_queue data")
  case None
  then show ?thesis by (simp add: snapshotState_def activeNotWaiting_def)
next
  case (Some q)
  note queue = this
  show ?thesis
  proof (cases "find (\<lambda>t. status t = IN_PROGRESS) q")
    case None
    with queue show ?thesis by (simp add: snapshotState_def activeNotWaiting_def)
  next
    case (Some t)
    then have "t \<in> set q" and "status t = IN_PROGRESS" by (auto dest: find_SomeD)
    with assms queue have "tokenId t \<notin> set (checkedInIds data)"
      by (auto simp: payloadConsistent_def queueOf_def list_all_iff)
    with Some queue show ?thesis
      by (simp add: snapshotState_def activeNotWaiting_def checkedInIds_def queueOf_def)
  qed
qed

lemma queueUpdateFn_inv:
  assumes "payloadConsistent data"
    and "find (\<lambda>t. status t = IN_PROGRESS) (queueOf data) = None \<Longrightarrow>
         (case active prev of None \<Rightarrow> True | Some a \<Rightarrow> tokenId a \<notin> set (checkedInIds data))"
  shows "activeNotWaiting (queueUpdateFn data prev)"
proof (cases "find (\<lambda>t. status t = IN_PROGRESS) (queueOf data)")
  case None
  with assms(2) show ?thesis
    by (simp add: activeNotWaiting_def waiting_queueUpdateFn active_queueUpdateFn
        checkedInIds_def split: option.splits)
next
  case (Some t)
  then have "t \<in> set (queueOf data)" and "status t = IN_PROGRESS" by (auto dest: find_SomeD)
  with assms(1) have "tokenId t \<notin> set (checkedInIds data)"
    by (auto simp: payloadConsistent_def list_all_iff)
  with Some show ?thesis
    by (simp add: activeNotWaiting_def waiting_queueUpdateFn active_queueUpdateFn
        checkedInIds_def)
qed

lemma callNextFn_inv: "activeNotWaiting (callNextFn nt prev)"
  by (auto simp: activeNotWaiting_def callNextFn_def)

lemma completeFn_inv: "activeNotWaiting (completeFn prev)"
  by (simp add: activeNotWaiting_def completeFn_def)

lemma foldl_update_inv:
  assumes "distinct (map fst acc)" and "list_all P acc" and "list_all (\<lambda>q. P (k q, f q)) rs"
  shows "distinct (map fst (foldl (\<lambda>acc q. AList.update (k q) (f q) acc) acc rs)) \<and>
         list_all P (foldl (\<lambda>acc q. AList.update (k q) (f q) acc) acc rs)"
  using assms
proof (induction rs arbitrary: acc)
  case Nil
  then show ?case by simp
next
  case (Cons r rs)
  show ?case using Cons.prems
    by (simp add: Cons.IH distinct_update list_all_update)
qed

lemma newQueuesState_inv:
  assumes "list_all payloadConsistent (responseItems response)"
  shows "distinct (map fst (newQueuesState response)) \<and>
         list_all (\<lambda>kv. activeNotWaiting (snd kv)) (newQueuesState response)"
proof (cases response)
  case (Single r)
  with assms show ?thesis
    by (simp add: newQueuesState_def responseItems_def snapshotState_inv)
next
  case (Many rs)
  with assms have rs: "list_all (\<lambda>q. activeNotWaiting (snapshotState q)) rs"
    by (auto simp: responseItems_def list_all_iff snapshotState_inv)
  have "distinct (map fst (foldl (\<lambda>acc q. AList.update (data_doctorId q) (snapshotState q) acc) [] rs)) \<and>
        list_all (\<lambda>kv. activeNotWaiting (snd kv))
          (foldl (\<lambda>acc q. AList.update (data_doctorId q) (snapshotState q) acc) [] rs)"
    by (rule foldl_update_inv) (use rs in simp_all)
  with Many show ?thesis by (simp add: newQueuesState_def)
qed

lemma fetchQueueData_inv:
  assumes "page_inv st" and "resultConsistent result"
  shows "page_inv (fetchQueueData result st)"
proof (cases result)
  case (Rejected e)
  with assms show ?thesis by (simp add: fetchQueueData_def)
next
  case (Resolved r)
  show ?thesis
  proof (cases r)
    case None
    with Resolved assms show ?thesis by (simp add: fetchQueueData_def)
  next
    case (Some response)
    with Resolved assms(2) have "list_all payloadConsistent (responseItems response)"
      by (simp add: resultConsistent_def)
    then have "page_inv (st \<lparr> queues := newQueuesState response \<rparr>)"
      using newQueuesState_inv by (simp add: page_inv_def)
    with Some Resolved assms(1) show ?thesis by (simp add: fetchQueueData_def)
  qed
qed

lemma handleQueueUpdate_inv:
  assumes "page_inv st" and "payloadConsistent data" and "keepsActiveApart doctors st data"
  shows "page_inv (handleQueueUpdate doctors data st)"
proof (cases "data_doctorId data = []")
  case True
  with assms(1) show ?thesis by (simp add: handleQueueUpdate_def)
next
  case False
  have "activeNotWaiting
          (queueUpdateFn data (existingState doctors (data_doctorId data) (queues st)))"
    using assms(2,3) by (intro queueUpdateFn_inv) (auto simp: keepsActiveApart_def)
  with assms(1) False show ?thesis
    by (simp add: handleQueueUpdate_def page_inv_def updateDoctorQueue_inv)
qed

lemma callNextBegin_inv:
  assumes "page_inv st" and "callNextBegin doctors st = Some st1"
  shows "page_inv st1"
  using assms
  by (auto simp: callNextBegin_def page_inv_def updateDoctorQueue_inv callNextFn_inv
      split: option.splits if_splits)

lemma completeBegin_inv:
  assumes "page_inv st" and "completeBegin doctors st = Some st1"
  shows "page_inv st1"
  using assms
  by (auto simp: completeBegin_def page_inv_def updateDoctorQueue_inv completeFn_inv
      split: option.splits if_splits)

lemma page_inv_isUpdating: "page_inv (st \<lparr> isUpdating := b \<rparr>) = page_inv st"
  by (simp add: page_inv_def)

lemma statusSettled_inv:
  assumes "page_inv st" and "resultConsistent fetchResult"
  shows "page_inv (statusSettled putResult fetchResult st)"
  using assms
  by (cases putResult) (simp_all add: statusSettled_def page_inv_isUpdating fetchQueueData_inv)

lemma step_inv:
  assumes "page_inv st" and "event_ok doctors st ev"
  shows "page_inv (step doctors st ev)"
proof (cases ev)
  case (QueueUpdateEv data)
  with assms show ?thesis by (simp add: handleQueueUpdate_inv)
next
  case CallNextEv
  with assms show ?thesis by (auto split: option.splits dest: callNextBegin_inv)
next
  case CompleteEv
  with assms show ?thesis by (auto split: option.splits dest: completeBegin_inv)
next
  case (StatusSettledEv p f)
  with assms show ?thesis by (simp add: statusSettled_inv)
next
  case (FetchEv r)
  with assms show ?thesis by (simp add: fetchQueueData_inv)
next
  case (SelectDepartmentEv v)
  with assms show ?thesis by (simp add: selectDepartment_def page_inv_def)
next
  case (SelectDoctorEv v)
  with assms show ?thesis by (simp add: selectDoctor_def page_inv_def)
qed

lemma run_inv:
  "page_inv st \<Longrightarrow> events_ok doctors st evs \<Longrightarrow> page_inv (run doctors evs st)"
proof (induction evs arbitrary: st)
  case Nil
  then show ?case by (simp add: run_def)
next
  case (Cons ev evs)
  from Cons.prems have "page_inv (step doctors st ev)" by (simp add: step_inv)
  moreover from Cons.prems have "events_ok doctors (step doctors st ev) evs" by simp
  ultimately have "page_inv (run doctors evs (step doctors st ev))" by (rule Cons.IH)
  then show ?case by (simp add: run_def)
qed

lemma page_inv_initial: "page_inv initialPage"
  by (simp add: page_inv_def initialPage_def)

lemma run_append: "run doctors (evs @ evs') st = run doctors evs' (run doctors evs st)"
  by (simp add: run_def)

lemma events_ok_append:
  "events_ok doctors st (evs @ evs') =
     (events_ok doctors st evs \<and> events_ok doctors (run doctors evs st) evs')"
  by (induction evs arbitrary: st) (simp_all add: run_def)

lemma init_events_ok:
  "events_ok doctors0 initialPage
     [SelectDepartmentEv ''dep1'', SelectDoctorEv ''d1'',
      FetchEv (Resolved (Some (Single snapshot0)))]"
  by (simp add: resultConsistent_def responseItems_def payloadConsistent_def queueOf_def
      snapshot0_def tokA_def tokB_def)

lemma confirmedUpdate_ok:
  "payloadConsistent confirmedUpdate \<and> keepsActiveApart doctors0 pageCalled confirmedUpdate"
  by (simp add: payloadConsistent_def keepsActiveApart_def queueOf_def checkedInIds_def
      confirmedUpdate_def tokA_def tokB_def)

lemma doctorState_pageCalled_confirmed:
  "doctorState (handleQueueUpdate doctors0 confirmedUpdate pageCalled) ''d1'' =
     Some \<lparr> departmentId = ''dep1'', departmentName = ''General'', doctorId = ''d1'',
            doctorName = ''Rao'', waiting = [tokB],
            active = Some (tokA \<lparr> status := IN_PROGRESS \<rparr>), previous = None,
            totalPatients = 2, timestamp = Some 3000 \<rparr>"
proof -
  have d: "data_doctorId confirmedUpdate = ''d1''"
    by (simp add: confirmedUpdate_def snapshot0_def)
  from doctorState_handleQueueUpdate [of confirmedUpdate doctors0 pageCalled]
  show ?thesis
    by (simp add: d pageCalled_queues existingState_def)
       (simp add: queueUpdateFn_def confirmedUpdate_def snapshot0_def or_string_def
         or_option_def tokA_def tokB_def)
qed

text \<open>
  Claim C2, as the code has it. The page keeps one entry per doctor, each with a single
  optional \<open>active\<close> token. The active token's id is absent from \<open>waiting\<close> in every
  state reached from the initial page by selections, fetches, queue updates, optimistic
  call-next and complete and their settling, provided that no server payload lists one
  token id both as \<open>IN_PROGRESS\<close> and as \<open>CHECKED_IN\<close> and that no queue update
  without an \<open>IN_PROGRESS\<close> token lists the doctor's held active token as
  \<open>CHECKED_IN\<close>. The page handles no \<open>token_called\<close> event.
\<close>

theorem active_apart_on_consistent_runs:
  assumes "events_ok doctors initialPage evs"
  shows "page_inv (run doctors evs initialPage)"
  using page_inv_initial assms by (rule run_inv)

theorem active_apart_on_consistent_runs_witness:
  "events_ok doctors0 initialPage
     ([SelectDepartmentEv ''dep1'', SelectDoctorEv ''d1'',
       FetchEv (Resolved (Some (Single snapshot0)))] @
      [CallNextEv, QueueUpdateEv confirmedUpdate]) \<and>
   page_inv
     (run doctors0
        ([SelectDepartmentEv ''dep1'', SelectDoctorEv ''d1'',
          FetchEv (Resolved (Some (Single snapshot0)))] @
         [CallNextEv, QueueUpdateEv confirmedUpdate])
        initialPage) \<and>
   map_option active
     (doctorState
        (run doctors0
           ([SelectDepartmentEv ''dep1'', SelectDoctorEv ''d1'',
             FetchEv (Resolved (Some (Single snapshot0)))] @
            [CallNextEv, QueueUpdateEv confirmedUpdate])
           initialPage) ''d1'') = Some (Some (tokA \<lparr> status := IN_PROGRESS \<rparr>))"
proof -
  let ?init = "[SelectDepartmentEv ''dep1'', SelectDoctorEv ''d1'',
                 FetchEv (Resolved (Some (Single snapshot0)))]"
  have p0: "run doctors0 ?init initialPage = page0" by (simp add: page0_def)
  have "events_ok doctors0 page0 [CallNextEv, QueueUpdateEv confirmedUpdate]"
    using confirmedUpdate_ok by (simp add: pageCalled_def)
  with init_events_ok
  have ok: "events_ok doctors0 initialPage (?init @ [CallNextEv, QueueUpdateEv confirmedUpdate])"
    by (simp only: events_ok_append p0 simp_thms)
  have r: "run doctors0 (?init @ [CallNextEv, QueueUpdateEv confirmedUpdate]) initialPage =
           handleQueueUpdate doctors0 confirmedUpdate pageCalled"
    by (simp only: run_append p0) (simp add: run_def pageCalled_def)
  from ok active_apart_on_consistent_runs [OF ok] show ?thesis
    by (simp only: r doctorState_pageCalled_confirmed) simp
qed

text \<open>
  The claim as stated fails. After the fetch of \<open>snapshot0\<close> and an optimistic
  call-next, a queue update that still lists the called token as \<open>CHECKED_IN\<close> (the
  server has not yet seen the status change) restores it to \<open>waiting\<close> while the
  handler preserves it as \<open>active\<close>.
\<close>

theorem active_token_back_in_waiting:
  "\<not> page_inv
       (run doctors0
          [SelectDepartmentEv ''dep1'', SelectDoctorEv ''d1'',
           FetchEv (Resolved (Some (Single snapshot0))), CallNextEv, QueueUpdateEv laterUpdate]
          initialPage)"
proof -
  have r: "run doctors0
          [SelectDepartmentEv ''dep1'', SelectDoctorEv ''d1'',
           FetchEv (Resolved (Some (Single snapshot0))), CallNextEv, QueueUpdateEv laterUpdate]
          initialPage = handleQueueUpdate doctors0 laterUpdate pageCalled"
    by (simp add: run_def pageCalled_def page0_def)
  have "queues (handleQueueUpdate doctors0 laterUpdate pageCalled) =
     [(''d1'', \<lparr> departmentId = ''dep1'', departmentName = ''General'', doctorId = ''d1'',
                doctorName = ''Rao'', waiting = [tokA, tokB], active = Some tokA,
                previous = None, totalPatients = 2, timestamp = Some 3000 \<rparr>)]"
    by (simp add: handleQueueUpdate_def updateDoctorQueue_def pageCalled_queues
          existingState_def laterUpdate_def snapshot0_def)
       (simp add: queueUpdateFn_def or_string_def or_option_def tokA_def tokB_def)
  then show ?thesis
    by (simp only: r page_inv_def) (simp add: activeNotWaiting_def)
qed

subsection \<open>Snapshot fetches\<close>

lemma map_of_foldl_update:
  "map_of (foldl (\<lambda>acc q. AList.update (k q) (f q) acc) acc rs) d =
     (case find (\<lambda>q. k q = d) (rev rs) of Some q \<Rightarrow> Some (f q) | None \<Rightarrow> map_of acc d)"
proof (induction rs arbitrary: acc)
  case Nil
  then show ?case by simp
next
  case (Cons r rs)
  show ?case
    by (simp add: Cons.IH find_append_case update_conv' split: option.splits)
qed

lemma map_of_newQueuesState:
  "map_of (newQueuesState response) d =
     map_option snapshotState (find (\<lambda>q. data_doctorId q = d) (rev (responseItems response)))"
proof (cases response)
  case (Single r)
  then show ?thesis by (simp add: newQueuesState_def responseItems_def)
next
  case (Many rs)
  then show ?thesis
    by (simp add: newQueuesState_def responseItems_def map_of_foldl_update split: option.splits)
qed

lemma queues_fetchQueueData:
  "truthy (selectedDepartmentId st) \<Longrightarrow>
   queues (fetchQueueData (Resolved (Some response)) st) = newQueuesState response"
  by (simp add: fetchQueueData_def)

lemma callNext_failed_is_refetch:
  assumes "callNextBegin doctors st \<noteq> None" and "truthy (selectedDepartmentId st)"
  shows "callNextToken doctors (Rejected e) (Resolved (Some response)) st =
         (fetchQueueData (Resolved (Some response)) st) \<lparr> isUpdating := False \<rparr>"
  using assms
  by (auto simp: callNextToken_def callNextBegin_def statusSettled_def fetchQueueData_def
      split: option.splits if_splits)

lemma pageTwo_has_d2: "doctorState pageTwo ''d2'' \<noteq> None"
proof -
  have "data_doctorId otherUpdate = ''d2''" by (simp add: otherUpdate_def)
  with doctorState_handleQueueUpdate [of otherUpdate doctors0 page0]
  show ?thesis by (simp add: pageTwo_def)
qed

lemma pageTwo_selection: "truthy (selectedDepartmentId pageTwo)"
  by (simp add: pageTwo_def handleQueueUpdate_def page0_selection truthy_def)

text \<open>
  Claim C10. After a successful fetch the record's keys are exactly the doctor ids of the
  response: a doctor has an entry afterwards if and only if the response lists it, so an
  entry held before for a doctor the response leaves out is gone.
\<close>

theorem snapshot_keeps_only_response_doctors:
  assumes "truthy (selectedDepartmentId st)"
  shows "(doctorState (fetchQueueData (Resolved (Some response)) st) d \<noteq> None) =
         (d \<in> set (map data_doctorId (responseItems response)))"
  using assms
  by (auto simp: doctorState_def queues_fetchQueueData map_of_newQueuesState find_eq_None_set)

theorem snapshot_keeps_only_response_doctors_witness:
  "truthy (selectedDepartmentId pageTwo) \<and>
   doctorState pageTwo ''d2'' \<noteq> None \<and>
   doctorState (fetchQueueData (Resolved (Some (Single snapshot0))) pageTwo) ''d2'' = None \<and>
   doctorState (fetchQueueData (Resolved (Some (Single snapshot0))) pageTwo) ''d1'' \<noteq> None"
proof -
  have items: "map data_doctorId (responseItems (Single snapshot0)) = [''d1'']"
    by (simp add: responseItems_def snapshot0_def)
  from snapshot_keeps_only_response_doctors [OF pageTwo_selection, of "Single snapshot0" "''d2''"]
    snapshot_keeps_only_response_doctors [OF pageTwo_selection, of "Single snapshot0" "''d1''"]
  show ?thesis
    by (simp add: items pageTwo_selection pageTwo_has_d2)
qed

section \<open>Properties of the component\<close>

subsection \<open>The token_called event\<close>





lemma display0_eq:
  "display0 =
     \<lparr> selectedDepartmentIdC = ''dep1'', selectedDoctorIdC = ''d1'',
       waitingQueues =
         [\<lparr> qs_departmentId = ''dep1'', qs_departmentName = ''General'', qs_doctorId = ''d1'',
            qs_doctorName = ''Rao'', qs_queue = [itemA, itemB] \<rparr>],
       isLoading = False, errorC = None,
       activeTokens = (\<lambda>k. None)(''dep1-d1'' \<mapsto> \<lparr> at_current = None, at_previous = None \<rparr>),
       lastCalledToken = None, isUpdatingC = False \<rparr>"
  by (simp add: display0_def fetchQueueDataC_def transformQueue_def responseC0_def
      clearActive_def activeKey_def or_string_def)




subsection \<open>Snapshot fetches and the revert of an optimistic call-next\<close>

lemma clearActive_apply:
  "clearActive ds m x =
     (if x \<in> set (map (\<lambda>q. activeKey (qs_departmentId q) (qs_doctorId q)) ds)
      then Some \<lparr> at_current = None, at_previous = None \<rparr>
      else m x)"
  unfolding clearActive_def
  by (induction ds arbitrary: m) auto

lemma clearActive_upd_covered:
  assumes "k \<in> set (map (\<lambda>q. activeKey (qs_departmentId q) (qs_doctorId q)) ds)"
  shows "clearActive ds (m(k \<mapsto> v)) = clearActive ds m"
  using assms by (intro ext) (simp add: clearActive_apply)

lemma fetchQueueDataC_success:
  assumes "selectedDepartmentIdC st \<noteq> [] \<or> selectedDoctorIdC st \<noteq> []"
  shows "fetchQueueDataC (Resolved (Some response)) st =
         st \<lparr> waitingQueues := map transformQueue (responseItemsC response),
              isLoading := False, errorC := None,
              activeTokens :=
                clearActive (map transformQueue (responseItemsC response)) (activeTokens st) \<rparr>"
  using assms
  by (auto simp: fetchQueueDataC_def responseItemsC_def Let_def split: QueueResponseC.splits)

lemma keys_transform:
  "map (\<lambda>q. activeKey (qs_departmentId q) (qs_doctorId q)) (map transformQueue rs) =
   map (\<lambda>q. activeKey (c_departmentId q) (c_doctorId q)) rs"
  by (simp add: transformQueue_def)

lemma clearActive_covered:
  assumes "key \<in> set (coveredKeys response)"
  shows "clearActive (map transformQueue (responseItemsC response)) m key =
         Some \<lparr> at_current = None, at_previous = None \<rparr>"
  using assms by (simp only: clearActive_apply keys_transform coveredKeys_def if_True)

lemma callNextC_failed_is_refetch:
  assumes "callNextBeginC st \<noteq> None"
    and "displayedKey st = Some k"
    and "k \<in> set (coveredKeys response)"
    and "selectedDepartmentIdC st \<noteq> [] \<or> selectedDoctorIdC st \<noteq> []"
  shows "callNextTokenC (Rejected e) (Resolved (Some response)) st =
         (fetchQueueDataC (Resolved (Some response)) st) \<lparr> isUpdatingC := False \<rparr>"
proof -
  from assms(1) obtain st1 where beg: "callNextBeginC st = Some st1" by auto
  from assms(2) obtain cdq where cdq: "currentDisplayQueueState st = Some cdq"
    and key: "k = activeKey (qs_departmentId cdq) (qs_doctorId cdq)"
    by (auto simp: displayedKey_def)
  obtain nt where st1: "st1 = st \<lparr> isUpdatingC := True,
         activeTokens := (activeTokens st)
            (k \<mapsto> \<lparr> at_current = Some nt,
                     at_previous = (case activeTokens st k of
                                      Some a \<Rightarrow> at_current a
                                    | None \<Rightarrow> None) \<rparr>),
         waitingQueues :=
           removeToken (qs_departmentId cdq) (qs_doctorId cdq) (qi_tokenId nt)
             (waitingQueues st) \<rparr>"
    using beg cdq key
    by (auto simp: callNextBeginC_def Let_def split: option.splits if_splits)
  have sel: "selectedDepartmentIdC
               (st1 \<lparr> errorC := Some ''Failed to call next token. Please try again.'' \<rparr>) \<noteq> [] \<or>
             selectedDoctorIdC
               (st1 \<lparr> errorC := Some ''Failed to call next token. Please try again.'' \<rparr>) \<noteq> []"
    using assms(4) by (simp add: st1)
  have k: "k \<in> set (map (\<lambda>q. activeKey (qs_departmentId q) (qs_doctorId q))
                         (map transformQueue (responseItemsC response)))"
    using assms(3) by (simp only: keys_transform coveredKeys_def)
  show ?thesis
    unfolding callNextTokenC_def beg option.case ApiResult.case
      fetchQueueDataC_success[OF sel] fetchQueueDataC_success[OF assms(4)]
    by (simp add: st1 clearActive_upd_covered[OF k])
qed

lemma page0_callNext: "callNextBegin doctors0 page0 \<noteq> None"
  by (simp add: callNextBegin_def currentDisplayQueue_def nextToken_def truthy_value_def
      page0_selection page0_queues snapshotState_snapshot0)

lemma page0_eq:
  "page0 =
     \<lparr> selectedDepartmentId = Some ''dep1'', selectedDoctorId = Some ''d1'',
       queues = [(''d1'', snapshotState snapshot0)], isUpdating = False,
       updatingPriorities = (\<lambda>k. None), connectionError = None \<rparr>"
  by (simp add: page0_def run_def selectDepartment_def selectDoctor_def fetchQueueData_def
      initialPage_def truthy_def newQueuesState_def snapshot0_def)

lemma display0_callNext:
  "callNextBeginC display0 \<noteq> None \<and> displayedKey display0 = Some ''dep1-d1'' \<and>
   ''dep1-d1'' \<in> set (coveredKeys (SingleC responseC0))"
  by (simp add: callNextBeginC_def displayedKey_def currentDisplayQueueState_def nextTokenC_def
      coveredKeys_def responseItemsC_def responseC0_def activeKey_def display0_eq Let_def)

text \<open>
  Claim C5, for the page (first three conjuncts) and for the component (last three).
  Page: a successful fetch replaces the whole record by a function of the response alone,
  so nothing held before survives; each doctor's entry is built from the last response
  entry that names the doctor (\<open>waiting\<close> its \<open>CHECKED_IN\<close> tokens, \<open>active\<close> and
  \<open>previous\<close> read from the response); and an optimistic call-next whose status
  request is rejected, followed by the successful re-fetch, ends in the state of that
  fetch applied to the state before the click. Component: a successful fetch makes the
  waiting lists the transformed response and resets \<open>current\<close> and \<open>previous\<close> under
  every key the response covers; and when the response covers the displayed queue, the
  rejected call-next followed by the re-fetch ends in the state of that fetch applied to
  the state before the click. (\<open>isUpdating\<close> is \<open>False\<close> again after the action.)
\<close>

theorem snapshot_replaces_optimistic_state:
  assumes "truthy (selectedDepartmentId st)"
    and "callNextBegin doctors st \<noteq> None"
    and "selectedDepartmentIdC cst \<noteq> [] \<or> selectedDoctorIdC cst \<noteq> []"
    and "callNextBeginC cst \<noteq> None"
    and "displayedKey cst = Some k"
    and "k \<in> set (coveredKeys cresponse)"
  shows "queues (fetchQueueData (Resolved (Some response)) st) = newQueuesState response \<and>
     doctorState (fetchQueueData (Resolved (Some response)) st) d =
       map_option snapshotState
         (find (\<lambda>q. data_doctorId q = d) (rev (responseItems response))) \<and>
     callNextToken doctors (Rejected e) (Resolved (Some response)) st =
       (fetchQueueData (Resolved (Some response)) st) \<lparr> isUpdating := False \<rparr> \<and>
     waitingQueues (fetchQueueDataC (Resolved (Some cresponse)) cst) =
       map transformQueue (responseItemsC cresponse) \<and>
     list_all
       (\<lambda>key. activeTokens (fetchQueueDataC (Resolved (Some cresponse)) cst) key =
                 Some \<lparr> at_current = None, at_previous = None \<rparr>)
       (coveredKeys cresponse) \<and>
     callNextTokenC (Rejected e') (Resolved (Some cresponse)) cst =
       (fetchQueueDataC (Resolved (Some cresponse)) cst) \<lparr> isUpdatingC := False \<rparr>"
proof -
  have "queues (fetchQueueData (Resolved (Some response)) st) = newQueuesState response"
    using assms(1) by (rule queues_fetchQueueData)
  moreover from this
  have "doctorState (fetchQueueData (Resolved (Some response)) st) d =
          map_option snapshotState
            (find (\<lambda>q. data_doctorId q = d) (rev (responseItems response)))"
    by (simp add: doctorState_def map_of_newQueuesState)
  moreover have "callNextToken doctors (Rejected e) (Resolved (Some response)) st =
          (fetchQueueData (Resolved (Some response)) st) \<lparr> isUpdating := False \<rparr>"
    using assms(2,1) by (rule callNext_failed_is_refetch)
  moreover have "waitingQueues (fetchQueueDataC (Resolved (Some cresponse)) cst) =
          map transformQueue (responseItemsC cresponse)"
    by (simp add: fetchQueueDataC_success[OF assms(3)])
  moreover have "list_all
       (\<lambda>key. activeTokens (fetchQueueDataC (Resolved (Some cresponse)) cst) key =
                 Some \<lparr> at_current = None, at_previous = None \<rparr>)
       (coveredKeys cresponse)"
    by (simp add: fetchQueueDataC_success[OF assms(3)] clearActive_covered list_all_iff)
  moreover have "callNextTokenC (Rejected e') (Resolved (Some cresponse)) cst =
          (fetchQueueDataC (Resolved (Some cresponse)) cst) \<lparr> isUpdatingC := False \<rparr>"
    using assms(4,5,6,3) by (rule callNextC_failed_is_refetch)
  ultimately show ?thesis by simp
qed

theorem snapshot_replaces_optimistic_state_witness:
  "truthy (selectedDepartmentId page0) \<and>
   callNextBegin doctors0 page0 \<noteq> None \<and>
   selectedDepartmentIdC display0 = ''dep1'' \<and>
   callNextBeginC display0 \<noteq> None \<and>
   displayedKey display0 = Some ''dep1-d1'' \<and>
   ''dep1-d1'' \<in> set (coveredKeys (SingleC responseC0)) \<and>
   callNextToken doctors0 (Rejected ''500'') (Resolved (Some (Single snapshot0))) page0 = page0 \<and>
   callNextTokenC (Rejected ''500'') (Resolved (Some (SingleC responseC0))) display0 = display0"
proof -
  have h1: "truthy (selectedDepartmentId page0)" by (simp add: page0_selection truthy_def)
  have h3: "selectedDepartmentIdC display0 \<noteq> [] \<or> selectedDoctorIdC display0 \<noteq> []"
    by (simp add: display0_eq)
  note h2 = page0_callNext
  from display0_callNext have h4: "callNextBeginC display0 \<noteq> None"
    and h5: "displayedKey display0 = Some ''dep1-d1''"
    and h6: "''dep1-d1'' \<in> set (coveredKeys (SingleC responseC0))"
    by simp_all
  have f: "(fetchQueueData (Resolved (Some (Single snapshot0))) page0) \<lparr> isUpdating := False \<rparr> = page0"
    by (simp add: fetchQueueData_def h1 newQueuesState_def) (simp add: page0_eq snapshot0_def)
  have fc: "(fetchQueueDataC (Resolved (Some (SingleC responseC0))) display0)
              \<lparr> isUpdatingC := False \<rparr> = display0"
    by (simp add: fetchQueueDataC_success[OF h3] responseItemsC_def clearActive_def)
       (simp add: display0_eq transformQueue_def responseC0_def activeKey_def or_string_def)
  from snapshot_replaces_optimistic_state [OF h1 h2 h3 h4 h5 h6,
      of "Single snapshot0" "''d1''" "''500''" "''500''"]
  show ?thesis
    using h1 h2 h4 h5 h6 by (simp only: f fc simp_thms) (simp add: display0_eq)
qed

section \<open>Properties of the priority buttons\<close>

lemma page0_rendered: "renderedTokens doctors0 page0 = [tokA, tokB]"
  by (simp add: renderedTokens_def nextToken_def upcomingTokens_def currentDisplayQueue_def
      truthy_value_def page0_selection page0_queues snapshotState_snapshot0)

text \<open>
  Claim C9. A click on the increase button of a rendered token whose priority is
  \<open>EMERGENCY\<close> sends nothing, and neither does a click on the decrease button of one
  whose priority is \<open>NORMAL\<close>, nor any click on a button of a token whose in-flight
  flag is set. A click that does send a request sends exactly that one and sets the
  token's flag, so that a further click for the same token sends nothing.
\<close>

theorem priority_requests_guarded:
  "(priority tok = EMERGENCY \<longrightarrow> snd (clickRenderedButton doctors increase tok st) = []) \<and>
   (priority tok = NORMAL \<longrightarrow> snd (clickRenderedButton doctors decrease tok st) = []) \<and>
   (updatingPriorities st (tokenId tok) = Some True \<longrightarrow>
      snd (clickRenderedButton doctors action tok st) = []) \<and>
   (snd (clickRenderedButton doctors action tok st) \<noteq> [] \<longrightarrow>
      snd (clickRenderedButton doctors action tok st) =
        [UpdateTokenPriority (tokenId tok) action] \<and>
      updatingPriorities (fst (clickRenderedButton doctors action tok st)) (tokenId tok) =
        Some True \<and>
      (tokenId tok' = tokenId tok \<longrightarrow>
         snd (clickRenderedButton doctors action' tok'
                (fst (clickRenderedButton doctors action tok st))) = []))"
  by (cases action; cases action')
     (simp_all add: clickRenderedButton_def clickPriorityButton_def buttonDisabled_def
       handleUpdatePriority_def)

theorem priority_requests_guarded_witness:
  "priority tokA = NORMAL \<and>
   snd (clickRenderedButton doctors0 decrease tokA page0) = [] \<and>
   snd (clickRenderedButton doctors0 increase tokB page0) = [UpdateTokenPriority ''t2'' increase] \<and>
   updatingPriorities (fst (clickRenderedButton doctors0 increase tokB page0)) ''t2'' = Some True \<and>
   snd (clickRenderedButton doctors0 increase tokB
          (fst (clickRenderedButton doctors0 increase tokB page0))) = []"
proof -
  have a: "priority tokA = NORMAL" by (simp add: tokA_def)
  have b: "tokenId tokB = ''t2''" by (simp add: tokB_def)
  have r: "tokB \<in> set (renderedTokens doctors0 page0)" by (simp add: page0_rendered)
  have u: "updatingPriorities page0 ''t2'' = None" by (simp add: page0_eq)
  have p: "priority tokB = HIGH" by (simp add: tokB_def)
  have c: "snd (clickRenderedButton doctors0 increase tokB page0) \<noteq> []"
    by (simp add: clickRenderedButton_def r clickPriorityButton_def buttonDisabled_def
        handleUpdatePriority_def b u p)
  from priority_requests_guarded [of tokA doctors0 page0 increase tokB increase]
    priority_requests_guarded [of tokB doctors0 page0 increase tokB increase]
  show ?thesis using a b c by simp
qed

section \<open>Properties of the hook\<close>

lemmas hook_defs = rerender_def effectBody_def effectCleanup_def connectSSE_def cleanup_def
  onopen_def onerror_def timerFires_def truthy_def Let_def

lemma connected0_eq:
  "connected0 =
     \<lparr> prop_departmentId = Some ''dep1'', prop_doctorId = Some ''d1'', reconnectOnClose = True,
       VITE_BASE_URL = Some ''http://localhost:3000'', eventSource = Some CONNECTING,
       reconnectAttempts = 0, reconnectTimeoutRef = None, isInitialConnect = True,
       lastDepartmentId = Some ''dep1'', lastDoctorId = Some ''d1'', hasBothIds = True,
       effects = [] \<rparr>"
  by (simp add: connected0_def hook0_def mountHook_def hook_defs)

subsection \<open>The attempt counter never passes 1\<close>

lemma hookStep_inv: "hook_inv st \<Longrightarrow> hook_inv (hookStep st ev)"
  by (cases ev) (auto simp: hook_inv_def hook_defs)

lemma runHook_inv: "hook_inv st \<Longrightarrow> hook_inv (runHook evs st)"
  unfolding runHook_def
  by (induction evs arbitrary: st) (simp_all add: hookStep_inv)

lemma mountHook_inv: "hook_inv (mountHook dep doc roc url)"
  by (simp add: hook_inv_def mountHook_def hook_defs)

text \<open>
  Whatever happens to a mounted hook, \<open>connectSSE\<close> has reset the counter before any
  source can fail, so the counter is at most 1 and the branch that raises the alert is
  never taken.
\<close>

lemma attempts_at_most_one:
  "reconnectAttempts (runHook evs (mountHook dep doc roc url)) \<le> 1 \<and>
   Alert \<notin> set (effects (runHook evs (mountHook dep doc roc url)))"
  using runHook_inv [OF mountHook_inv, of evs dep doc roc url] by (simp add: hook_inv_def)

subsection \<open>Runs of failures\<close>

text \<open>
  Claim C6, evaluated on the code. The first connection fails, the timer fires and the
  retry fails, the timer fires and that retry fails too: three failures in a row with no
  open in between, with \<open>Math.random()\<close> returning \<open>0\<close>, \<open>1/2\<close> and \<open>1/4\<close>. Each
  retry runs \<open>connectSSE\<close>, which sets the counter back to \<open>0\<close>: the counter ends at
  \<open>1\<close>, not \<open>3\<close>, and the three delays are \<open>1000\<close> plus the jitter each, not
  \<open>1000\<close>, \<open>2000\<close> and \<open>4000\<close> plus the jitter.
\<close>

theorem three_failures_same_base_delay:
  "reconnectAttempts
     (runHook [SourceError 0, TimerFires, SourceError (1/2), TimerFires, SourceError (1/4)]
        connected0) = 1 \<and>
   delays (effects
     (runHook [SourceError 0, TimerFires, SourceError (1/2), TimerFires, SourceError (1/4)]
        connected0)) = [1000, 1500, 1250]"
  by (simp add: connected0_eq runHook_def hook_defs)

text \<open>
  Claim C7, evaluated on the code. After five failures in a row (each retry started by
  the timer) a sixth reconnect is scheduled, no alert has been raised, and when the
  timer fires the sixth connection is opened.
\<close>

theorem five_failures_still_reconnecting:
  "reconnectTimeoutRef
     (runHook [SourceError 0, TimerFires, SourceError 0, TimerFires, SourceError 0, TimerFires,
               SourceError 0, TimerFires, SourceError 0] connected0) = Some 1000 \<and>
   Alert \<notin> set (effects
     (runHook [SourceError 0, TimerFires, SourceError 0, TimerFires, SourceError 0, TimerFires,
               SourceError 0, TimerFires, SourceError 0] connected0)) \<and>
   eventSource
     (runHook [SourceError 0, TimerFires, SourceError 0, TimerFires, SourceError 0, TimerFires,
               SourceError 0, TimerFires, SourceError 0, TimerFires] connected0) =
     Some CONNECTING"
  by (simp add: connected0_eq runHook_def hook_defs)

subsection \<open>onOpen and onReconnect\<close>

text \<open>
  Claim C8, evaluated on the code. The connection for doctor \<open>d1\<close> opens, the page
  switches to doctor \<open>d2\<close>, and the new connection opens. No source has failed, yet the
  second open calls \<open>onReconnect\<close>, and the new subscription's first open does not call
  \<open>onOpen\<close>: \<open>isInitialConnect\<close> is cleared by the first open and never set again.
\<close>

theorem open_after_pair_change_calls_onReconnect:
  "effects (runHook [SourceOpen, Rerender (Some ''dep1'') (Some ''d2''), SourceOpen] connected0) =
     [OnOpen, OnReconnect]"
  by (simp add: connected0_eq runHook_def hook_defs)

end
